theory Spec2Isabelle
  imports Main
begin

section \<open>Python values used by policy.py\<close>

text \<open>
  The module \<^verbatim>\<open>config2spec/policies/policy.py\<close> is embedded function by function.
  A Python \<^verbatim>\<open>str\<close> is a \<^typ>\<open>string\<close>; one \<^typ>\<open>char\<close> stands for one code point
  below 256. An exception is a value of \<open>py_error\<close>, and a function that can raise
  returns \<open>py_error + 'a\<close> with \<open>Inl\<close> for the exception.
\<close>

datatype py_error = AttributeError | TypeError | ValueError

text \<open>What a rich-comparison method returns: a truth value, or \<^verbatim>\<open>NotImplemented\<close>.\<close>

datatype richcmp = Result bool | NotImplemented

subsection \<open>String operations\<close>

text \<open>
  \<^verbatim>\<open>s.split(sep)\<close> for a non-empty separator: the occurrences of \<open>sep\<close> are found
  from the left and do not overlap; \<open>cur\<close> collects the part being read.
\<close>

function split_from :: "string \<Rightarrow> string \<Rightarrow> string \<Rightarrow> string list" where
  "split_from sep cur s =
     (if s = [] then [cur]
      else if sep \<noteq> [] \<and> take (length sep) s = sep
           then cur # split_from sep [] (drop (length sep) s)
           else split_from sep (cur @ [hd s]) (tl s))"
  by pat_completeness auto
termination
  by (relation "measure (\<lambda>(sep, cur, s). length s)") auto

declare split_from.simps [simp del]

definition str_split :: "string \<Rightarrow> string \<Rightarrow> string list" where
  "str_split s sep = split_from sep [] s"

text \<open>\<^verbatim>\<open>sep.join(parts)\<close>.\<close>

fun str_join :: "string \<Rightarrow> string list \<Rightarrow> string" where
  "str_join sep [] = []"
| "str_join sep [x] = x"
| "str_join sep (x # y # ys) = x @ sep @ str_join sep (y # ys)"

text \<open>
  The slice \<^verbatim>\<open>s[1:-1]\<close>: without the first and the last character, and empty for a
  string shorter than two characters.
\<close>

definition slice_1_m1 :: "string \<Rightarrow> string" where
  "slice_1_m1 s = butlast (tl s)"

text \<open>
  \<^verbatim>\<open>str.isdigit\<close> on code points below 256: true of the decimal digits and of the
  superscripts two, three and one (U+00B2, U+00B3, U+00B9), and false of the empty
  string. \<^verbatim>\<open>int\<close> reads decimal digits only, and raises \<^verbatim>\<open>ValueError\<close> on a
  superscript. From CPython 3.11 on it also raises \<^verbatim>\<open>ValueError\<close> for a string of more
  than 4300 digits, the default of \<^verbatim>\<open>sys.get_int_max_str_digits()\<close>.
\<close>

definition max_str_digits :: nat where
  "max_str_digits = 4300"

definition is_decimal_char :: "char \<Rightarrow> bool" where
  "is_decimal_char c = (c \<in> set ''0123456789'')"

definition is_digit_char :: "char \<Rightarrow> bool" where
  "is_digit_char c = (is_decimal_char c \<or> c = CHR 0xB2 \<or> c = CHR 0xB3 \<or> c = CHR 0xB9)"

definition isdigit :: "string \<Rightarrow> bool" where
  "isdigit s = (s \<noteq> [] \<and> list_all is_digit_char s)"

definition digit_value :: "char \<Rightarrow> int" where
  "digit_value c = int (of_char c) - 48"

definition py_int :: "string \<Rightarrow> py_error + int" where
  "py_int s =
     (if s \<noteq> [] \<and> list_all is_decimal_char s \<and> length s \<le> max_str_digits
      then Inr (foldl (\<lambda>acc c. 10 * acc + digit_value c) 0 s)
      else Inl ValueError)"

text \<open>The decimal rendering of an integer, as \<^verbatim>\<open>str(n)\<close> and \<^verbatim>\<open>'%d' % n\<close> give it.\<close>

definition digit_char :: "nat \<Rightarrow> char" where
  "digit_char d = ''0123456789'' ! (d mod 10)"

function str_nat :: "nat \<Rightarrow> string" where
  "str_nat n = (if n < 10 then [digit_char n] else str_nat (n div 10) @ [digit_char n])"
  by pat_completeness auto
termination
  by (relation "measure (\<lambda>n. n)") auto

declare str_nat.simps [simp del]

definition str_int :: "int \<Rightarrow> string" where
  "str_int i = (if i < 0 then CHR ''-'' # str_nat (nat (- i)) else str_nat (nat i))"

section \<open>PolicyType\<close>

datatype PolicyType =
    Reachability
  | Isolation
  | Waypoint
  | LoadBalancingSimple
  | LoadBalancingEdgeDisjoint
  | LoadBalancingNodeDisjoint

text \<open>The members in the order of their declaration, \<^verbatim>\<open>member.value\<close> and \<^verbatim>\<open>member.name\<close>.\<close>

definition members :: "PolicyType list" where
  "members = [Reachability, Isolation, Waypoint, LoadBalancingSimple,
     LoadBalancingEdgeDisjoint, LoadBalancingNodeDisjoint]"

fun pt_value :: "PolicyType \<Rightarrow> int" where
  "pt_value Reachability = 1"
| "pt_value Isolation = 2"
| "pt_value Waypoint = 3"
| "pt_value LoadBalancingSimple = 4"
| "pt_value LoadBalancingEdgeDisjoint = 5"
| "pt_value LoadBalancingNodeDisjoint = 6"

fun pt_name :: "PolicyType \<Rightarrow> string" where
  "pt_name Reachability = ''Reachability''"
| "pt_name Isolation = ''Isolation''"
| "pt_name Waypoint = ''Waypoint''"
| "pt_name LoadBalancingSimple = ''LoadBalancingSimple''"
| "pt_name LoadBalancingEdgeDisjoint = ''LoadBalancingEdgeDisjoint''"
| "pt_name LoadBalancingNodeDisjoint = ''LoadBalancingNodeDisjoint''"

section \<open>PolicySource, PolicyDestination and the policy classes\<close>

datatype PolicySource = PolicySource (src_router: string)

datatype PolicyDestination =
  PolicyDestination (router: string) (interface: string) (subnet: string)

text \<open>
  \<open>specifics\<close> is a value of \<^verbatim>\<open>waypoints\<close> or \<^verbatim>\<open>num_paths\<close>. The constructors store
  any object. The values modelled are an \<^verbatim>\<open>int\<close> and a \<^verbatim>\<open>str\<close>, which \<^verbatim>\<open>from_df\<close> hands
  to the factory, and a \<^verbatim>\<open>bool\<close>, which Python compares with an \<^verbatim>\<open>int\<close> by its value
  (\<^verbatim>\<open>True == 1\<close>) and renders by its name. An element of \<^verbatim>\<open>sources\<close> is a
  \<^verbatim>\<open>PolicySource\<close>, or the bare \<^verbatim>\<open>df.source\<close> that \<^verbatim>\<open>from_df\<close> stores; an element of
  \<^verbatim>\<open>destinations\<close> is a \<^verbatim>\<open>PolicyDestination\<close>, or the \<^verbatim>\<open>None\<close> that
  \<^verbatim>\<open>from_string\<close> returns.
\<close>

datatype specifics = SpecInt int | SpecBool bool | SpecStr string

datatype source_item = SourceStr string | SourceObj PolicySource

text \<open>
  One constructor for each class, with the arguments of its \<^verbatim>\<open>__init__\<close>. The three
  subclasses pass a fixed \<^verbatim>\<open>type\<close> to \<^verbatim>\<open>Policy.__init__\<close>, and the last two leave
  \<^verbatim>\<open>negate\<close> at its default.
\<close>

datatype Policy =
    Policy string "source_item list" "PolicyDestination option list" bool
  | ReachabilityPolicy "source_item list" "PolicyDestination option list" bool
  | LoadBalancingPolicy "source_item list" "PolicyDestination option list" specifics
  | WaypointPolicy "source_item list" "PolicyDestination option list" specifics

fun ptype :: "Policy \<Rightarrow> string" where
  "ptype (Policy t S D n) = t"
| "ptype (ReachabilityPolicy S D n) = ''reachability''"
| "ptype (LoadBalancingPolicy S D k) = ''loadbalancing''"
| "ptype (WaypointPolicy S D w) = ''waypoint''"

fun sources :: "Policy \<Rightarrow> source_item list" where
  "sources (Policy t S D n) = S"
| "sources (ReachabilityPolicy S D n) = S"
| "sources (LoadBalancingPolicy S D k) = S"
| "sources (WaypointPolicy S D w) = S"

fun destinations :: "Policy \<Rightarrow> PolicyDestination option list" where
  "destinations (Policy t S D n) = D"
| "destinations (ReachabilityPolicy S D n) = D"
| "destinations (LoadBalancingPolicy S D k) = D"
| "destinations (WaypointPolicy S D w) = D"

fun negate :: "Policy \<Rightarrow> bool" where
  "negate (Policy t S D n) = n"
| "negate (ReachabilityPolicy S D n) = n"
| "negate (LoadBalancingPolicy S D k) = False"
| "negate (WaypointPolicy S D w) = False"

text \<open>The values an operand of \<^verbatim>\<open>==\<close> or an argument of the factory can be.\<close>

datatype pyval =
    PyNone
  | PyInt int
  | PyStr string
  | PyEnum PolicyType
  | PySource PolicySource
  | PyDestination PolicyDestination
  | PyPolicy Policy

text \<open>
  Attribute reads on an arbitrary object. Only a policy has \<^verbatim>\<open>type\<close>, \<^verbatim>\<open>sources\<close>,
  \<^verbatim>\<open>destinations\<close> and \<^verbatim>\<open>negate\<close>; only a \<^verbatim>\<open>LoadBalancingPolicy\<close> has
  \<^verbatim>\<open>num_paths\<close> and only a \<^verbatim>\<open>WaypointPolicy\<close> has \<^verbatim>\<open>waypoints\<close>. Any other read
  raises \<^verbatim>\<open>AttributeError\<close>.
\<close>

fun attr_type :: "pyval \<Rightarrow> py_error + string" where
  "attr_type (PyPolicy p) = Inr (ptype p)"
| "attr_type _ = Inl AttributeError"

fun attr_sources :: "pyval \<Rightarrow> py_error + source_item list" where
  "attr_sources (PyPolicy p) = Inr (sources p)"
| "attr_sources _ = Inl AttributeError"

fun attr_destinations :: "pyval \<Rightarrow> py_error + PolicyDestination option list" where
  "attr_destinations (PyPolicy p) = Inr (destinations p)"
| "attr_destinations _ = Inl AttributeError"

fun attr_negate :: "pyval \<Rightarrow> py_error + bool" where
  "attr_negate (PyPolicy p) = Inr (negate p)"
| "attr_negate _ = Inl AttributeError"

fun attr_num_paths :: "pyval \<Rightarrow> py_error + specifics" where
  "attr_num_paths (PyPolicy (LoadBalancingPolicy S D k)) = Inr k"
| "attr_num_paths _ = Inl AttributeError"

fun attr_waypoints :: "pyval \<Rightarrow> py_error + specifics" where
  "attr_waypoints (PyPolicy (WaypointPolicy S D w)) = Inr w"
| "attr_waypoints _ = Inl AttributeError"

section \<open>Equality\<close>

subsection \<open>PolicyType.__eq__\<close>

text \<open>
  Unpacking \<^verbatim>\<open>enum_name, option_name = other.split('.')\<close> raises \<^verbatim>\<open>ValueError\<close> unless
  the list has exactly two elements.
\<close>

fun unpack2 :: "string list \<Rightarrow> py_error + string \<times> string" where
  "unpack2 [a, b] = Inr (a, b)"
| "unpack2 _ = Inl ValueError"

text \<open>
  \<^verbatim>\<open>super().__eq__(other)\<close> is \<^verbatim>\<open>object.__eq__\<close>: true of the same object, and
  \<^verbatim>\<open>NotImplemented\<close> otherwise. An enum member is one object, so a member is the same
  object as \<open>other\<close> exactly when \<open>other\<close> is that member.
\<close>

fun object_eq :: "PolicyType \<Rightarrow> pyval \<Rightarrow> richcmp" where
  "object_eq self (PyEnum b) = (if self = b then Result True else NotImplemented)"
| "object_eq self _ = NotImplemented"

text \<open>
  \<^verbatim>\<open>PolicyType.__eq__\<close>. The \<^verbatim>\<open>ValueError\<close> of the unpacking is caught (\<^verbatim>\<open>pass\<close>), and
  the method goes on to \<^verbatim>\<open>super().__eq__\<close> as it does when the names differ.
\<close>

fun PolicyType_eq :: "PolicyType \<Rightarrow> pyval \<Rightarrow> richcmp" where
  "PolicyType_eq self (PyStr other) =
     (case unpack2 (str_split other ''.'') of
        Inr (enum_name, option_name) \<Rightarrow>
          if enum_name = ''PolicyType'' \<and> option_name = pt_name self then Result True
          else object_eq self (PyStr other)
      | Inl e \<Rightarrow> object_eq self (PyStr other))"
| "PolicyType_eq self other = object_eq self other"

text \<open>
  The four ordering methods: a truth value when \<open>other\<close> is a \<^verbatim>\<open>PolicyType\<close> too, and
  \<^verbatim>\<open>NotImplemented\<close> otherwise.
\<close>

fun PolicyType_ge :: "PolicyType \<Rightarrow> pyval \<Rightarrow> richcmp" where
  "PolicyType_ge self (PyEnum other) = Result (pt_value self \<ge> pt_value other)"
| "PolicyType_ge self _ = NotImplemented"

fun PolicyType_gt :: "PolicyType \<Rightarrow> pyval \<Rightarrow> richcmp" where
  "PolicyType_gt self (PyEnum other) = Result (pt_value self > pt_value other)"
| "PolicyType_gt self _ = NotImplemented"

fun PolicyType_le :: "PolicyType \<Rightarrow> pyval \<Rightarrow> richcmp" where
  "PolicyType_le self (PyEnum other) = Result (pt_value self \<le> pt_value other)"
| "PolicyType_le self _ = NotImplemented"

fun PolicyType_lt :: "PolicyType \<Rightarrow> pyval \<Rightarrow> richcmp" where
  "PolicyType_lt self (PyEnum other) = Result (pt_value self < pt_value other)"
| "PolicyType_lt self _ = NotImplemented"

subsection \<open>PolicySource.__eq__ and PolicyDestination.__eq__\<close>

fun PolicySource_eq :: "PolicySource \<Rightarrow> pyval \<Rightarrow> bool" where
  "PolicySource_eq self (PySource other) = (src_router self = src_router other)"
| "PolicySource_eq self _ = False"

fun PolicyDestination_eq :: "PolicyDestination \<Rightarrow> pyval \<Rightarrow> bool" where
  "PolicyDestination_eq self (PyDestination other) =
     (router self = router other \<and> interface self = interface other
      \<and> subnet self = subnet other)"
| "PolicyDestination_eq self _ = False"

subsection \<open>Equality of the elements and of the lists a policy holds\<close>

text \<open>
  \<^verbatim>\<open>a == b\<close> for two elements of \<^verbatim>\<open>sources\<close>: two strings are compared as strings,
  a \<^verbatim>\<open>PolicySource\<close> on either side decides by its own \<^verbatim>\<open>__eq__\<close> (a \<^verbatim>\<open>str\<close> on the
  left returns \<^verbatim>\<open>NotImplemented\<close> first, and the reflected call decides).
\<close>

fun source_item_eq :: "source_item \<Rightarrow> source_item \<Rightarrow> bool" where
  "source_item_eq (SourceStr a) (SourceStr b) = (a = b)"
| "source_item_eq (SourceObj a) (SourceObj b) = PolicySource_eq a (PySource b)"
| "source_item_eq (SourceObj a) (SourceStr b) = PolicySource_eq a (PyStr b)"
| "source_item_eq (SourceStr a) (SourceObj b) = PolicySource_eq b (PyStr a)"

text \<open>The same for two elements of \<^verbatim>\<open>destinations\<close>, where \<^verbatim>\<open>None == None\<close> is true.\<close>

fun dest_item_eq :: "PolicyDestination option \<Rightarrow> PolicyDestination option \<Rightarrow> bool" where
  "dest_item_eq None None = True"
| "dest_item_eq (Some a) (Some b) = PolicyDestination_eq a (PyDestination b)"
| "dest_item_eq (Some a) None = PolicyDestination_eq a PyNone"
| "dest_item_eq None (Some b) = PolicyDestination_eq b PyNone"

text \<open>Two lists are equal when they have one length and equal elements, place by place.\<close>

definition list_eq :: "('a \<Rightarrow> 'a \<Rightarrow> bool) \<Rightarrow> 'a list \<Rightarrow> 'a list \<Rightarrow> bool" where
  "list_eq eq xs ys = list_all2 eq xs ys"

text \<open>
  \<^verbatim>\<open>a == b\<close> for two such values. \<^verbatim>\<open>bool\<close> is a subclass of \<^verbatim>\<open>int\<close> and inherits its
  \<^verbatim>\<open>__eq__\<close>, so \<^verbatim>\<open>True\<close> is compared as 1 and \<^verbatim>\<open>False\<close> as 0; a string is equal to
  a string only.
\<close>

definition bool_int :: "bool \<Rightarrow> int" where
  "bool_int b = (if b then 1 else 0)"

fun specifics_eq :: "specifics \<Rightarrow> specifics \<Rightarrow> bool" where
  "specifics_eq (SpecInt a) (SpecInt b) = (a = b)"
| "specifics_eq (SpecBool a) (SpecBool b) = (a = b)"
| "specifics_eq (SpecInt a) (SpecBool b) = (a = bool_int b)"
| "specifics_eq (SpecBool a) (SpecInt b) = (bool_int a = b)"
| "specifics_eq (SpecStr a) (SpecStr b) = (a = b)"
| "specifics_eq _ _ = False"

subsection \<open>Policy.__eq__ and its two overrides\<close>

text \<open>
  \<^verbatim>\<open>Policy.__eq__\<close> reads \<^verbatim>\<open>other.type\<close> first, with no test of what \<open>other\<close> is. The
  conjunction is evaluated from the left and stops at the first false conjunct.
\<close>

definition Policy_eq :: "Policy \<Rightarrow> pyval \<Rightarrow> py_error + bool" where
  "Policy_eq self other =
     (case attr_type other of
        Inl e \<Rightarrow> Inl e
      | Inr t \<Rightarrow>
          if ptype self \<noteq> t then Inr False
          else (case attr_sources other of
            Inl e \<Rightarrow> Inl e
          | Inr S \<Rightarrow>
              if \<not> list_eq source_item_eq (sources self) S then Inr False
              else (case attr_destinations other of
                Inl e \<Rightarrow> Inl e
              | Inr D \<Rightarrow>
                  if \<not> list_eq dest_item_eq (destinations self) D then Inr False
                  else (case attr_negate other of
                    Inl e \<Rightarrow> Inl e
                  | Inr n \<Rightarrow> Inr (negate self = n)))))"

definition LoadBalancingPolicy_eq :: "Policy \<Rightarrow> pyval \<Rightarrow> py_error + bool" where
  "LoadBalancingPolicy_eq self other =
     (case Policy_eq self other of
        Inl e \<Rightarrow> Inl e
      | Inr False \<Rightarrow> Inr False
      | Inr True \<Rightarrow>
          (case attr_num_paths (PyPolicy self) of
             Inl e \<Rightarrow> Inl e
           | Inr a \<Rightarrow>
               (case attr_num_paths other of
                  Inl e \<Rightarrow> Inl e
                | Inr b \<Rightarrow> Inr (specifics_eq a b))))"

definition WaypointPolicy_eq :: "Policy \<Rightarrow> pyval \<Rightarrow> py_error + bool" where
  "WaypointPolicy_eq self other =
     (case Policy_eq self other of
        Inl e \<Rightarrow> Inl e
      | Inr False \<Rightarrow> Inr False
      | Inr True \<Rightarrow>
          (case attr_waypoints (PyPolicy self) of
             Inl e \<Rightarrow> Inl e
           | Inr a \<Rightarrow>
               (case attr_waypoints other of
                  Inl e \<Rightarrow> Inl e
                | Inr b \<Rightarrow> Inr (specifics_eq a b))))"

subsection \<open>The operator ==\<close>

datatype pyclass =
    C_NoneType | C_int | C_str | C_PolicyType | C_PolicySource | C_PolicyDestination
  | C_Policy | C_ReachabilityPolicy | C_LoadBalancingPolicy | C_WaypointPolicy

fun class_of :: "pyval \<Rightarrow> pyclass" where
  "class_of PyNone = C_NoneType"
| "class_of (PyInt i) = C_int"
| "class_of (PyStr s) = C_str"
| "class_of (PyEnum m) = C_PolicyType"
| "class_of (PySource s) = C_PolicySource"
| "class_of (PyDestination d) = C_PolicyDestination"
| "class_of (PyPolicy (Policy t S D n)) = C_Policy"
| "class_of (PyPolicy (ReachabilityPolicy S D n)) = C_ReachabilityPolicy"
| "class_of (PyPolicy (LoadBalancingPolicy S D k)) = C_LoadBalancingPolicy"
| "class_of (PyPolicy (WaypointPolicy S D w)) = C_WaypointPolicy"

text \<open>\<open>proper_subclass c d\<close>: \<open>c\<close> is a subclass of \<open>d\<close> other than \<open>d\<close>.\<close>

definition proper_subclass :: "pyclass \<Rightarrow> pyclass \<Rightarrow> bool" where
  "proper_subclass c d =
     (d = C_Policy \<and> (c = C_ReachabilityPolicy \<or> c = C_LoadBalancingPolicy \<or> c = C_WaypointPolicy))"

text \<open>
  \<^verbatim>\<open>type(self).__eq__(self, other)\<close>: the method the class of \<open>self\<close> has.
  \<^verbatim>\<open>ReachabilityPolicy\<close> inherits \<^verbatim>\<open>Policy.__eq__\<close>; \<^verbatim>\<open>NoneType\<close>, \<^verbatim>\<open>int\<close> and \<^verbatim>\<open>str\<close>
  answer for their own type and return \<^verbatim>\<open>NotImplemented\<close> for any other.
\<close>

fun dunder_eq :: "pyval \<Rightarrow> pyval \<Rightarrow> py_error + richcmp" where
  "dunder_eq PyNone other = Inr (if other = PyNone then Result True else NotImplemented)"
| "dunder_eq (PyInt i) other =
     Inr (case other of PyInt j \<Rightarrow> Result (i = j) | _ \<Rightarrow> NotImplemented)"
| "dunder_eq (PyStr s) other =
     Inr (case other of PyStr t \<Rightarrow> Result (s = t) | _ \<Rightarrow> NotImplemented)"
| "dunder_eq (PyEnum m) other = Inr (PolicyType_eq m other)"
| "dunder_eq (PySource s) other = Inr (Result (PolicySource_eq s other))"
| "dunder_eq (PyDestination d) other = Inr (Result (PolicyDestination_eq d other))"
| "dunder_eq (PyPolicy (Policy t S D n)) other =
     map_sum id Result (Policy_eq (Policy t S D n) other)"
| "dunder_eq (PyPolicy (ReachabilityPolicy S D n)) other =
     map_sum id Result (Policy_eq (ReachabilityPolicy S D n) other)"
| "dunder_eq (PyPolicy (LoadBalancingPolicy S D k)) other =
     map_sum id Result (LoadBalancingPolicy_eq (LoadBalancingPolicy S D k) other)"
| "dunder_eq (PyPolicy (WaypointPolicy S D w)) other =
     map_sum id Result (WaypointPolicy_eq (WaypointPolicy S D w) other)"

text \<open>
  \<^verbatim>\<open>v == w\<close>. The method of \<open>w\<close> is tried first, with the operands swapped, when the
  class of \<open>w\<close> is a proper subclass of the class of \<open>v\<close>; otherwise the method of \<open>v\<close>
  is. On \<^verbatim>\<open>NotImplemented\<close> the other operand's method is tried, and when both return
  \<^verbatim>\<open>NotImplemented\<close> the operands are compared by identity: they are two objects
  then, and the result is false. An exception of a method ends the comparison.
\<close>

definition py_eq :: "pyval \<Rightarrow> pyval \<Rightarrow> py_error + bool" where
  "py_eq v w =
     (let first = (if proper_subclass (class_of w) (class_of v) then dunder_eq w v
                   else dunder_eq v w);
          second = (if proper_subclass (class_of w) (class_of v) then dunder_eq v w
                    else dunder_eq w v)
      in case first of
           Inl e \<Rightarrow> Inl e
         | Inr (Result b) \<Rightarrow> Inr b
         | Inr NotImplemented \<Rightarrow>
             (case second of
                Inl e \<Rightarrow> Inl e
              | Inr (Result b) \<Rightarrow> Inr b
              | Inr NotImplemented \<Rightarrow> Inr False))"

text \<open>
  The operators \<^verbatim>\<open><\<close> and \<^verbatim>\<open>>\<close> between two \<^verbatim>\<open>PolicyType\<close> members: the method of
  the left operand answers.
\<close>

definition pt_less :: "PolicyType \<Rightarrow> PolicyType \<Rightarrow> bool" where
  "pt_less a b = (PolicyType_lt a (PyEnum b) = Result True)"

definition pt_greater :: "PolicyType \<Rightarrow> PolicyType \<Rightarrow> bool" where
  "pt_greater a b = (PolicyType_gt a (PyEnum b) = Result True)"

section \<open>Rendering and parsing a destination\<close>

text \<open>\<^verbatim>\<open>PolicySource.__str__\<close> and \<^verbatim>\<open>PolicyDestination.__str__\<close>.\<close>

definition PolicySource_str :: "PolicySource \<Rightarrow> string" where
  "PolicySource_str self = src_router self"

definition PolicyDestination_str :: "PolicyDestination \<Rightarrow> string" where
  "PolicyDestination_str self = router self @ '':'' @ interface self @ '' ('' @ subnet self @ '')''"

subsection \<open>The pattern of from_string\<close>

text \<open>
  The pieces the pattern of \<^verbatim>\<open>from_string\<close> is made of: \<open>Bos\<close> is \<^verbatim>\<open>^\<close>, \<open>Eos\<close> is
  \<^verbatim>\<open>$\<close>, \<open>Lit c\<close> is the character \<open>c\<close>, and \<open>GroupNot c\<close> is a group \<^verbatim>\<open>([^c]+)\<close>:
  one or more characters other than \<open>c\<close>, as many as possible.
\<close>

datatype rx = Bos | Eos | Lit char | GroupNot char

text \<open>
  \<^verbatim>\<open>^(?P<router>[^:]+):(?P<interface>[^ ]+) \((?P<subnet>[^)]+)\)$\<close>
\<close>

definition pattern :: "rx list" where
  "pattern = [Bos, GroupNot CHR '':'', Lit CHR '':'', GroupNot CHR '' '', Lit CHR '' '',
     Lit CHR ''('', GroupNot CHR '')'', Lit CHR '')'', Eos]"

text \<open>
  A greedy group tries its longest run first and gives characters back one at a time
  until the rest of the pattern matches: \<open>backtrack k s n\<close> tries the first \<open>n\<close>,
  \<open>n - 1\<close>, ..., \<open>1\<close> characters of \<open>s\<close> as the group, where \<open>k\<close> matches the rest
  of the pattern and returns the groups it captured.
\<close>

primrec backtrack :: "(string \<Rightarrow> string list option) \<Rightarrow> string \<Rightarrow> nat \<Rightarrow> string list option"
  where
  "backtrack k s 0 = None"
| "backtrack k s (Suc n) =
     (case k (drop (Suc n) s) of
        Some gs \<Rightarrow> Some (take (Suc n) s # gs)
      | None \<Rightarrow> backtrack k s n)"

text \<open>
  \<open>rx_match items at_start s\<close> matches the items against a prefix of \<open>s\<close>, and
  returns the captured groups in the order of the pattern. \<open>at_start\<close> says that
  nothing has been read yet. Without the flag \<^verbatim>\<open>MULTILINE\<close>, \<^verbatim>\<open>^\<close> matches at the start
  of the string only, and \<^verbatim>\<open>$\<close> at its end or before a newline that ends it.
\<close>

primrec rx_match :: "rx list \<Rightarrow> bool \<Rightarrow> string \<Rightarrow> string list option" where
  "rx_match [] at_start s = Some []"
| "rx_match (x # items) at_start s =
     (case x of
        Bos \<Rightarrow> if at_start then rx_match items at_start s else None
      | Eos \<Rightarrow> if s = [] \<or> s = [CHR 0x0A] then rx_match items at_start s else None
      | Lit c \<Rightarrow>
          (case s of
             [] \<Rightarrow> None
           | y # ys \<Rightarrow> if y = c then rx_match items False ys else None)
      | GroupNot c \<Rightarrow>
          backtrack (rx_match items False) s (length (takeWhile (\<lambda>y. y \<noteq> c) s)))"

text \<open>\<^verbatim>\<open>re.match(pattern, str)\<close>: the groups of the match, or \<^verbatim>\<open>None\<close>.\<close>

definition re_match :: "rx list \<Rightarrow> string \<Rightarrow> string list option" where
  "re_match items s = rx_match items True s"

text \<open>\<^verbatim>\<open>PolicyDestination.from_string\<close>.\<close>

definition from_string :: "string \<Rightarrow> PolicyDestination option" where
  "from_string s =
     (case re_match pattern s of
        Some [r, i, n] \<Rightarrow> Some (PolicyDestination r i n)
      | _ \<Rightarrow> None)"

section \<open>Rendering and hashing a policy\<close>

fun source_item_str :: "source_item \<Rightarrow> string" where
  "source_item_str (SourceStr s) = s"
| "source_item_str (SourceObj s) = PolicySource_str s"

fun dest_item_str :: "PolicyDestination option \<Rightarrow> string" where
  "dest_item_str None = ''None''"
| "dest_item_str (Some d) = PolicyDestination_str d"

definition bool_str :: "bool \<Rightarrow> string" where
  "bool_str b = (if b then ''True'' else ''False'')"

text \<open>\<^verbatim>\<open>str(v)\<close>, which \<^verbatim>\<open>format\<close> uses for the field \<^verbatim>\<open>{waypoints}\<close>.\<close>

fun specifics_str :: "specifics \<Rightarrow> string" where
  "specifics_str (SpecInt n) = str_int n"
| "specifics_str (SpecBool b) = bool_str b"
| "specifics_str (SpecStr s) = s"

text \<open>
  \<^verbatim>\<open>'%d' % v\<close>: the decimal digits of a number, a \<^verbatim>\<open>bool\<close> counting as 1 or 0, and
  \<^verbatim>\<open>TypeError\<close> for a string.
\<close>

fun format_d :: "specifics \<Rightarrow> py_error + string" where
  "format_d (SpecInt n) = Inr (str_int n)"
| "format_d (SpecBool b) = Inr (str_int (bool_int b))"
| "format_d (SpecStr s) = Inl TypeError"

text \<open>\<^verbatim>\<open>Policy.__str__\<close>, which the two overrides call through \<^verbatim>\<open>super()\<close>.\<close>

definition Policy_base_str :: "Policy \<Rightarrow> string" where
  "Policy_base_str self =
     (let sources_str = ''{'' @ str_join '', '' (map source_item_str (sources self)) @ ''}'';
          destinations_str =
            ''{'' @ str_join '', '' (map dest_item_str (destinations self)) @ ''}''
      in ptype self @ '' policy: '' @ sources_str @ ''->'' @ destinations_str
           @ '', negate='' @ bool_str (negate self))"

text \<open>
  \<^verbatim>\<open>str(self)\<close> by the class of \<open>self\<close>. \<^verbatim>\<open>LoadBalancingPolicy.__str__\<close> formats
  \<^verbatim>\<open>num_paths\<close> with \<^verbatim>\<open>%d\<close>, which raises \<^verbatim>\<open>TypeError\<close> for a string.
\<close>

fun Policy_str :: "Policy \<Rightarrow> py_error + string" where
  "Policy_str (Policy t S D n) = Inr (Policy_base_str (Policy t S D n))"
| "Policy_str (ReachabilityPolicy S D n) = Inr (Policy_base_str (ReachabilityPolicy S D n))"
| "Policy_str (LoadBalancingPolicy S D k) =
     (case format_d k of
        Inl e \<Rightarrow> Inl e
      | Inr d \<Rightarrow> Inr (Policy_base_str (LoadBalancingPolicy S D k) @ '' - NumPaths '' @ d))"
| "Policy_str (WaypointPolicy S D w) =
     Inr (Policy_base_str (WaypointPolicy S D w) @ '' - Waypoints '' @ specifics_str w)"


definition get_coverage :: "Policy \<Rightarrow> nat" where
  "get_coverage self = length (sources self) * length (destinations self)"

section \<open>The factory and the reading of a record\<close>

text \<open>
  \<^verbatim>\<open>Policy.get_policy\<close>. Each test is the operator \<^verbatim>\<open>==\<close> with \<open>policy_type\<close> on the
  left; the branches are tried in the order of the source.
\<close>

definition get_policy ::
  "pyval \<Rightarrow> source_item list \<Rightarrow> PolicyDestination option list \<Rightarrow> specifics
     \<Rightarrow> py_error + Policy option" where
  "get_policy policy_type S D spec =
     (case py_eq policy_type (PyEnum Reachability) of
        Inl e \<Rightarrow> Inl e
      | Inr True \<Rightarrow> Inr (Some (ReachabilityPolicy S D False))
      | Inr False \<Rightarrow>
     (case py_eq policy_type (PyEnum Isolation) of
        Inl e \<Rightarrow> Inl e
      | Inr True \<Rightarrow> Inr (Some (ReachabilityPolicy S D True))
      | Inr False \<Rightarrow>
     (case py_eq policy_type (PyEnum Waypoint) of
        Inl e \<Rightarrow> Inl e
      | Inr True \<Rightarrow> Inr (Some (WaypointPolicy S D spec))
      | Inr False \<Rightarrow>
     (case py_eq policy_type (PyEnum LoadBalancingSimple) of
        Inl e \<Rightarrow> Inl e
      | Inr True \<Rightarrow> Inr (Some (LoadBalancingPolicy S D spec))
      | Inr False \<Rightarrow> Inr None))))"

text \<open>
  The record \<^verbatim>\<open>from_df\<close> reads: \<^verbatim>\<open>df.type\<close> is a string or a \<^verbatim>\<open>PolicyType\<close>, the other
  three fields are strings.
\<close>

record df_row =
  df_type :: pyval
  df_source :: string
  df_Destinations :: string
  df_specifics :: string

text \<open>
  \<^verbatim>\<open>int(df.specifics) if df.specifics.isdigit() else df.specifics\<close>
\<close>

definition read_specifics :: "string \<Rightarrow> py_error + specifics" where
  "read_specifics s =
     (if isdigit s then map_sum id SpecInt (py_int s) else Inr (SpecStr s))"

definition from_df :: "df_row \<Rightarrow> py_error + Policy option" where
  "from_df df =
     (let type = df_type df;
          sources = [SourceStr (df_source df)];
          str_destinations = str_split (slice_1_m1 (df_Destinations df)) '', '';
          destinations = map from_string str_destinations
      in case read_specifics (df_specifics df) of
           Inl e \<Rightarrow> Inl e
         | Inr specifics \<Rightarrow> get_policy type sources destinations specifics)"

text \<open>The operator \<^verbatim>\<open>==\<close> between two \<^verbatim>\<open>PolicyType\<close> members.\<close>

definition pt_equal :: "PolicyType \<Rightarrow> PolicyType \<Rightarrow> bool" where
  "pt_equal a b = (py_eq (PyEnum a) (PyEnum b) = Inr True)"

section \<open>The destination grammar of the specification\<close>

text \<open>
  The specification words the text form of a destination as
  \<^verbatim>\<open><router>:<interface> (<subnet>)\<close>, where the router has no colon and the interface
  has no space. \<open>dest_grammar\<close> follows these words, not the pattern of
  \<^verbatim>\<open>from_string\<close>.
\<close>

definition dest_grammar :: "string \<Rightarrow> bool" where
  "dest_grammar s =
     (\<exists>r i n. s = r @ '':'' @ i @ '' ('' @ n @ '')''
        \<and> CHR '':'' \<notin> set r \<and> CHR '' '' \<notin> set i)"

section \<open>Auxiliary notions\<close>

text \<open>Two policies that agree on the four attributes \<^verbatim>\<open>Policy.__eq__\<close> compares.\<close>

definition same_base :: "Policy \<Rightarrow> Policy \<Rightarrow> bool" where
  "same_base p q = (ptype p = ptype q \<and> sources p = sources q
     \<and> destinations p = destinations q \<and> negate p = negate q)"





section \<open>Properties of the string operations\<close>

lemma split_from_none:
  "c \<notin> set s \<Longrightarrow> split_from [c] cur s = [cur @ s]"
proof (induction s arbitrary: cur)
  case Nil
  show ?case by (simp add: split_from.simps[of _ _ "[]"])
next
  case (Cons x xs)
  then have "x \<noteq> c" and "c \<notin> set xs" by auto
  then show ?case
    using Cons.IH[of "cur @ [x]"] by (simp add: split_from.simps[of "[c]" cur "x # xs"])
qed

lemma split_from_first:
  "c \<notin> set xs \<Longrightarrow> split_from [c] cur (xs @ c # ys) = (cur @ xs) # split_from [c] [] ys"
proof (induction xs arbitrary: cur)
  case Nil
  show ?case by (simp add: split_from.simps[of "[c]" cur "c # ys"])
next
  case (Cons x xs)
  then have "x \<noteq> c" and "c \<notin> set xs" by auto
  then show ?case
    using Cons.IH[of "cur @ [x]"] by (simp add: split_from.simps[of "[c]" cur "x # xs @ c # ys"])
qed

lemma split_from_length: "length (split_from [c] cur s) = Suc (count_list s c)"
proof (induction s arbitrary: cur)
  case Nil
  show ?case by (simp add: split_from.simps[of _ _ "[]"])
next
  case (Cons x xs)
  show ?case
    using Cons.IH[of "cur @ [x]"] Cons.IH[of "[]"]
    by (simp add: split_from.simps[of "[c]" cur "x # xs"])
qed

lemma count_list_0: "count_list s c = 0 \<longleftrightarrow> c \<notin> set s"
  by (induction s) auto

lemma unpack2_length: "length L \<noteq> 2 \<Longrightarrow> unpack2 L = Inl ValueError"
  by (cases L rule: unpack2.cases) simp_all

section \<open>PolicyType: equality and order\<close>

lemma pt_name_no_dot: "CHR ''.'' \<notin> set (pt_name m)"
  by (cases m) simp_all

lemma pt_name_inj: "pt_name m = pt_name n \<longleftrightarrow> m = n"
  by (cases m; cases n) simp_all

lemma py_eq_enum_str:
  "py_eq (PyEnum m) (PyStr s) = Inr (PolicyType_eq m (PyStr s) = Result True)"
  by (simp add: py_eq_def proper_subclass_def split: sum.splits prod.splits)

lemma str_split_prefixed:
  "str_split (''PolicyType.'' @ nm) ''.'' = ''PolicyType'' # split_from ''.'' [] nm"
  using split_from_first[of "CHR ''.''" "''PolicyType''" "[]" nm]
  by (simp add: str_split_def)

lemma PolicyType_eq_not_False: "PolicyType_eq m x \<noteq> Result False"
proof (cases x)
  case (PyStr s)
  then show ?thesis
    by (cases "unpack2 (str_split s ''.'')") (auto split: if_splits)
next
  case (PyEnum b)
  then show ?thesis by simp
qed simp_all

lemma py_eq_str_enum:
  "py_eq (PyStr s) (PyEnum m) = Inr (PolicyType_eq m (PyStr s) = Result True)"
  using PolicyType_eq_not_False[of m "PyStr s"]
  by (cases "PolicyType_eq m (PyStr s)") (simp_all add: py_eq_def proper_subclass_def)

lemma PolicyType_eq_prefixed:
  "(PolicyType_eq m (PyStr (''PolicyType.'' @ x)) = Result True) = (x = pt_name m)"
proof (cases "CHR ''.'' \<in> set x")
  case True
  then have "count_list x CHR ''.'' \<noteq> 0" by (simp add: count_list_0)
  then have "length (str_split (''PolicyType.'' @ x) ''.'') \<noteq> 2"
    unfolding str_split_prefixed by (simp add: split_from_length)
  then have "unpack2 (str_split (''PolicyType.'' @ x) ''.'') = Inl ValueError"
    by (rule unpack2_length)
  moreover have "x \<noteq> pt_name m" using True pt_name_no_dot[of m] by auto
  ultimately show ?thesis by simp
next
  case False
  then have "str_split (''PolicyType.'' @ x) ''.'' = [''PolicyType'', x]"
    unfolding str_split_prefixed by (simp add: split_from_none)
  then show ?thesis by simp
qed

text \<open>
  Claim C6. A member compared with the string \<^verbatim>\<open>"PolicyType.<Name>"\<close> is equal exactly
  when \<^verbatim>\<open><Name>\<close> is its own name, so it is not equal to the string form of another
  member; and compared with a string that \<^verbatim>\<open>split('.')\<close> does not cut into exactly two
  parts, the result is false. The comparison is the operator \<^verbatim>\<open>==\<close>, whose result
  \<open>Inr b\<close> is a truth value and not an exception.
\<close>

theorem PolicyType_eq_string:
  "py_eq (PyEnum m) (PyStr (''PolicyType.'' @ nm)) = Inr (nm = pt_name m)
   \<and> py_eq (PyEnum m) (PyStr (''PolicyType.'' @ pt_name n)) = Inr (m = n)
   \<and> (length (str_split s ''.'') \<noteq> 2 \<longrightarrow> py_eq (PyEnum m) (PyStr s) = Inr False)"
proof -
  have general: "py_eq (PyEnum m) (PyStr (''PolicyType.'' @ x)) = Inr (x = pt_name m)" for x
    unfolding py_eq_enum_str by (simp only: PolicyType_eq_prefixed)
  have "py_eq (PyEnum m) (PyStr (''PolicyType.'' @ pt_name n)) = Inr (m = n)"
    using general[of "pt_name n"] pt_name_inj[of n m] by auto
  moreover have "py_eq (PyEnum m) (PyStr s) = Inr False" if "length (str_split s ''.'') \<noteq> 2"
    using unpack2_length[OF that] by (simp add: py_eq_enum_str)
  ultimately show ?thesis using general[of nm] by blast
qed

theorem PolicyType_eq_string_witness:
  "py_eq (PyEnum Reachability) (PyStr ''PolicyType.Reachability'') = Inr True
   \<and> py_eq (PyEnum Reachability) (PyStr ''PolicyType.Isolation'') = Inr False
   \<and> length (str_split ''garbage'' ''.'') \<noteq> 2
   \<and> py_eq (PyEnum Reachability) (PyStr ''garbage'') = Inr False"
proof -
  have len: "length (str_split ''garbage'' ''.'') \<noteq> 2"
    by (simp add: str_split_def split_from_none)
  have a: "py_eq (PyEnum Reachability) (PyStr ''PolicyType.Reachability'') = Inr True"
    using PolicyType_eq_string[of Reachability "''Reachability''" Reachability "''garbage''"] by simp
  have b: "py_eq (PyEnum Reachability) (PyStr ''PolicyType.Isolation'') = Inr False"
    using PolicyType_eq_string[of Reachability "''Isolation''" Isolation "''garbage''"] by simp
  have c: "py_eq (PyEnum Reachability) (PyStr ''garbage'') = Inr False"
    using PolicyType_eq_string[of Reachability "''Reachability''" Reachability "''garbage''"] len by blast
  show ?thesis using a b c len by blast
qed

lemma pt_less_value: "pt_less a b = (pt_value a < pt_value b)"
  by (simp add: pt_less_def)

lemma pt_greater_value: "pt_greater a b = (pt_value a > pt_value b)"
  by (simp add: pt_greater_def)

lemma pt_equal_iff: "pt_equal a b = (a = b)"
  by (simp add: pt_equal_def py_eq_def proper_subclass_def) 

lemma pt_value_inj: "pt_value a = pt_value b \<longleftrightarrow> a = b"
  by (cases a; cases b) simp_all

text \<open>
  Claim C7. For two members \<open>a\<close> and \<open>b\<close>, exactly one of \<^verbatim>\<open>a < b\<close>, \<^verbatim>\<open>a == b\<close> and
  \<^verbatim>\<open>a > b\<close> holds: at least one does, and no two do. The order follows the declaration:
  every member is less than each member declared after it.
\<close>

theorem PolicyType_order_total:
  "(pt_less a b \<or> pt_equal a b \<or> pt_greater a b)
   \<and> \<not> (pt_less a b \<and> pt_equal a b)
   \<and> \<not> (pt_less a b \<and> pt_greater a b)
   \<and> \<not> (pt_equal a b \<and> pt_greater a b)
   \<and> sorted_wrt pt_less members"
proof -
  have "pt_value a < pt_value b \<or> a = b \<or> pt_value a > pt_value b"
    using pt_value_inj[of a b] by linarith
  moreover have "\<not> (pt_value a < pt_value b \<and> a = b)" by auto
  moreover have "\<not> (a = b \<and> pt_value a > pt_value b)" by auto
  moreover have "sorted_wrt pt_less members"
    by (simp add: members_def pt_less_value)
  ultimately show ?thesis
    by (simp add: pt_less_value pt_greater_value pt_equal_iff)
qed

theorem PolicyType_order_total_witness:
  "pt_less Reachability Isolation \<and> \<not> pt_equal Reachability Isolation
   \<and> \<not> pt_greater Reachability Isolation \<and> sorted_wrt pt_less members"
proof -
  have "pt_less Reachability Isolation" by (simp add: pt_less_def)
  then show ?thesis using PolicyType_order_total[of Reachability Isolation] by blast
qed

section \<open>The factory\<close>

lemma py_eq_enum_enum: "py_eq (PyEnum a) (PyEnum b) = Inr (a = b)"
  by (simp add: py_eq_def proper_subclass_def)

text \<open>
  Claim C8. For all sources, destinations and specifics, the factory called with the
  kind \<^verbatim>\<open>Reachability\<close> returns a \<^verbatim>\<open>ReachabilityPolicy\<close> whose \<^verbatim>\<open>negate\<close> is false, and
  called with \<^verbatim>\<open>Isolation\<close> one whose \<^verbatim>\<open>negate\<close> is true; the \<^verbatim>\<open>type\<close> of both is
  \<^verbatim>\<open>"reachability"\<close>.
\<close>

theorem get_policy_reachability_isolation:
  "get_policy (PyEnum Reachability) S D spec = Inr (Some (ReachabilityPolicy S D False))
   \<and> get_policy (PyEnum Isolation) S D spec = Inr (Some (ReachabilityPolicy S D True))
   \<and> negate (ReachabilityPolicy S D False) = False
   \<and> negate (ReachabilityPolicy S D True) = True
   \<and> ptype (ReachabilityPolicy S D False) = ''reachability''
   \<and> ptype (ReachabilityPolicy S D True) = ''reachability''"
  by (simp add: get_policy_def py_eq_enum_enum)

text \<open>
  Claim C9. For all sources, destinations and specifics, the factory called with a kind
  other than \<^verbatim>\<open>Reachability\<close>, \<^verbatim>\<open>Isolation\<close>, \<^verbatim>\<open>Waypoint\<close> and
  \<^verbatim>\<open>LoadBalancingSimple\<close> returns \<^verbatim>\<open>None\<close> and does not raise; the two remaining kinds
  are \<^verbatim>\<open>LoadBalancingEdgeDisjoint\<close> and \<^verbatim>\<open>LoadBalancingNodeDisjoint\<close>.
\<close>

theorem get_policy_unsupported:
  "k \<notin> {Reachability, Isolation, Waypoint, LoadBalancingSimple}
   \<Longrightarrow> get_policy (PyEnum k) S D spec = Inr None"
  by (simp add: get_policy_def py_eq_enum_enum)

theorem get_policy_unsupported_witness:
  "LoadBalancingEdgeDisjoint \<notin> {Reachability, Isolation, Waypoint, LoadBalancingSimple}
   \<and> get_policy (PyEnum LoadBalancingEdgeDisjoint) [] [] (SpecInt 2) = Inr None
   \<and> get_policy (PyEnum LoadBalancingNodeDisjoint) [] [] (SpecInt 2) = Inr None"
proof -
  have a: "LoadBalancingEdgeDisjoint \<notin> {Reachability, Isolation, Waypoint, LoadBalancingSimple}"
    by simp
  have b: "LoadBalancingNodeDisjoint \<notin> {Reachability, Isolation, Waypoint, LoadBalancingSimple}"
    by simp
  show ?thesis
    using a get_policy_unsupported[OF a, of "[]" "[]" "SpecInt 2"]
      get_policy_unsupported[OF b, of "[]" "[]" "SpecInt 2"] by blast
qed

section \<open>Parsing a destination\<close>

lemma backtrack_Some:
  "backtrack k s n = Some G \<Longrightarrow>
     \<exists>m gs. 0 < m \<and> m \<le> n \<and> k (drop m s) = Some gs \<and> G = take m s # gs"
proof (induction n)
  case 0
  then show ?case by simp
next
  case (Suc n)
  show ?case
  proof (cases "k (drop (Suc n) s)")
    case None
    with Suc.prems have "backtrack k s n = Some G" by simp
    from Suc.IH[OF this] obtain m gs where
      "0 < m" "m \<le> n" "k (drop m s) = Some gs" "G = take m s # gs"
      by blast
    then have "0 < m \<and> m \<le> Suc n \<and> k (drop m s) = Some gs \<and> G = take m s # gs"
      by simp
    then show ?thesis by blast
  next
    case (Some gs)
    with Suc.prems have "G = take (Suc n) s # gs" by simp
    with Some show ?thesis by blast
  qed
qed

lemma backtrack_longest:
  "0 < n \<Longrightarrow> k (drop n s) = Some gs \<Longrightarrow> backtrack k s n = Some (take n s # gs)"
  by (cases n) simp_all

lemma takeWhile_stop:
  "c \<notin> set g \<Longrightarrow> takeWhile (\<lambda>y. y \<noteq> c) (g @ c # rest) = g"
  by (induction g) auto

lemma take_takeWhile:
  "m \<le> length (takeWhile P s) \<Longrightarrow> take m (takeWhile P s) = take m s"
proof (induction s arbitrary: m)
  case Nil
  then show ?case by simp
next
  case (Cons x xs)
  then show ?case by (cases m) (auto split: if_splits)
qed

lemma take_within_takeWhile:
  assumes "m \<le> length (takeWhile P s)" and "x \<in> set (take m s)"
  shows "P x"
proof -
  have "x \<in> set (take m (takeWhile P s))"
    using assms by (simp add: take_takeWhile)
  then have "x \<in> set (takeWhile P s)" by (rule in_set_takeD)
  then show "P x" by (rule set_takeWhileD[THEN conjunct2])
qed

lemma group_match:
  assumes "c \<notin> set g" and "g \<noteq> []"
    and "rx_match items False (c # rest) = Some gs"
  shows "rx_match (GroupNot c # items) b (g @ c # rest) = Some (g # gs)"
proof -
  have "length (takeWhile (\<lambda>y. y \<noteq> c) (g @ c # rest)) = length g"
    using assms(1) by (simp add: takeWhile_stop)
  moreover have "backtrack (rx_match items False) (g @ c # rest) (length g) = Some (g # gs)"
    using backtrack_longest[of "length g" "rx_match items False" "g @ c # rest" gs] assms(2,3)
    by simp
  ultimately show ?thesis by simp
qed

lemma group_Some:
  assumes "rx_match (GroupNot c # items) b s = Some G"
  shows "\<exists>g gs rest. G = g # gs \<and> g \<noteq> [] \<and> c \<notin> set g \<and> s = g @ rest
           \<and> rx_match items False rest = Some gs"
proof -
  from assms have "backtrack (rx_match items False) s (length (takeWhile (\<lambda>y. y \<noteq> c) s)) = Some G"
    by simp
  from backtrack_Some[OF this] obtain m gs where
    m: "0 < m" "m \<le> length (takeWhile (\<lambda>y. y \<noteq> c) s)"
    and k: "rx_match items False (drop m s) = Some gs" and G: "G = take m s # gs"
    by blast
  have "m \<le> length s" using m(2) length_takeWhile_le[of "\<lambda>y. y \<noteq> c" s] by linarith
  then have ne: "take m s \<noteq> []" using m(1) by auto
  have "c \<notin> set (take m s)" using take_within_takeWhile[OF m(2)] by blast
  moreover have "s = take m s @ drop m s" by simp
  ultimately show ?thesis using G k ne by blast
qed

lemma lit_Some:
  "rx_match (Lit c # items) b s = Some G \<Longrightarrow>
     \<exists>rest. s = c # rest \<and> rx_match items False rest = Some G"
  by (cases s) (auto split: if_splits)

lemma eos_Some:
  "rx_match [Eos] b s = Some G \<Longrightarrow> G = [] \<and> (s = [] \<or> s = [CHR 0x0A])"
  by (auto split: if_splits)

lemma re_match_rendered:
  assumes "r \<noteq> []" "CHR '':'' \<notin> set r" "i \<noteq> []" "CHR '' '' \<notin> set i"
    "n \<noteq> []" "CHR '')'' \<notin> set n"
  shows "re_match pattern (r @ '':'' @ i @ '' ('' @ n @ '')'') = Some [r, i, n]"
proof -
  have 1: "rx_match [Lit CHR '')'', Eos] False '')'' = Some []" by simp
  have 2: "rx_match [GroupNot CHR '')'', Lit CHR '')'', Eos] False (n @ '')'') = Some [n]"
    using group_match[OF assms(6,5), of "[Lit CHR '')'', Eos]" "[]" "[]" False] 1 by simp
  have 3: "rx_match [Lit CHR '' '', Lit CHR ''('', GroupNot CHR '')'', Lit CHR '')'', Eos] False
             ('' ('' @ n @ '')'') = Some [n]"
    using 2 by simp
  have 4: "rx_match [GroupNot CHR '' '', Lit CHR '' '', Lit CHR ''('', GroupNot CHR '')'',
             Lit CHR '')'', Eos] False (i @ '' ('' @ n @ '')'') = Some [i, n]"
    using group_match[OF assms(4,3), of _ "''('' @ n @ '')''" "[n]" False] 3 by simp
  have 5: "rx_match [Lit CHR '':'', GroupNot CHR '' '', Lit CHR '' '', Lit CHR ''('',
             GroupNot CHR '')'', Lit CHR '')'', Eos] False ('':'' @ i @ '' ('' @ n @ '')'')
           = Some [i, n]"
    using 4 by simp
  have 6: "rx_match [GroupNot CHR '':'', Lit CHR '':'', GroupNot CHR '' '', Lit CHR '' '',
             Lit CHR ''('', GroupNot CHR '')'', Lit CHR '')'', Eos] True
             (r @ '':'' @ i @ '' ('' @ n @ '')'') = Some [r, i, n]"
    using group_match[OF assms(2,1), of _ "i @ '' ('' @ n @ '')''" "[i, n]" True] 5 by simp
  show ?thesis using 6 by (simp add: re_match_def pattern_def)
qed

lemma re_match_Some:
  assumes "re_match pattern s = Some G"
  shows "\<exists>r i n. G = [r, i, n] \<and> r \<noteq> [] \<and> CHR '':'' \<notin> set r \<and> i \<noteq> [] \<and> CHR '' '' \<notin> set i
           \<and> n \<noteq> [] \<and> CHR '')'' \<notin> set n
           \<and> (s = r @ '':'' @ i @ '' ('' @ n @ '')''
               \<or> s = r @ '':'' @ i @ '' ('' @ n @ '')'' @ [CHR 0x0A])"
proof -
  from assms have "rx_match (GroupNot CHR '':'' # [Lit CHR '':'', GroupNot CHR '' '', Lit CHR '' '',
             Lit CHR ''('', GroupNot CHR '')'', Lit CHR '')'', Eos]) True s = Some G"
    by (simp add: re_match_def pattern_def)
  from group_Some[OF this] obtain r G1 s1 where
    r: "G = r # G1" "r \<noteq> []" "CHR '':'' \<notin> set r" "s = r @ s1"
    and m1: "rx_match (Lit CHR '':'' # [GroupNot CHR '' '', Lit CHR '' '',
             Lit CHR ''('', GroupNot CHR '')'', Lit CHR '')'', Eos]) False s1 = Some G1"
    by blast
  from lit_Some[OF m1] obtain s2 where
    s2: "s1 = CHR '':'' # s2"
    and m2: "rx_match (GroupNot CHR '' '' # [Lit CHR '' '',
             Lit CHR ''('', GroupNot CHR '')'', Lit CHR '')'', Eos]) False s2 = Some G1"
    by auto
  from group_Some[OF m2] obtain i G2 s3 where
    i: "G1 = i # G2" "i \<noteq> []" "CHR '' '' \<notin> set i" "s2 = i @ s3"
    and m3: "rx_match (Lit CHR '' '' # [Lit CHR ''('', GroupNot CHR '')'', Lit CHR '')'', Eos])
               False s3 = Some G2"
    by blast
  from lit_Some[OF m3] obtain s4 where
    s4: "s3 = CHR '' '' # s4"
    and m4: "rx_match (Lit CHR ''('' # [GroupNot CHR '')'', Lit CHR '')'', Eos]) False s4 = Some G2"
    by auto
  from lit_Some[OF m4] obtain s5 where
    s5: "s4 = CHR ''('' # s5"
    and m5: "rx_match (GroupNot CHR '')'' # [Lit CHR '')'', Eos]) False s5 = Some G2"
    by auto
  from group_Some[OF m5] obtain n G3 s6 where
    n: "G2 = n # G3" "n \<noteq> []" "CHR '')'' \<notin> set n" "s5 = n @ s6"
    and m6: "rx_match (Lit CHR '')'' # [Eos]) False s6 = Some G3"
    by blast
  from lit_Some[OF m6] obtain s7 where
    s7: "s6 = CHR '')'' # s7" and m7: "rx_match [Eos] False s7 = Some G3"
    by auto
  from eos_Some[OF m7] have e: "G3 = []" "s7 = [] \<or> s7 = [CHR 0x0A]" by auto
  have "G = [r, i, n]" using r(1) i(1) n(1) e(1) by simp
  moreover have "s = r @ '':'' @ i @ '' ('' @ n @ '')'' @ s7"
    using r(4) s2 i(4) s4 s5 n(4) s7 by simp
  ultimately show ?thesis using r(2,3) i(2,3) n(2,3) e(2) by auto
qed

lemma from_string_Some:
  assumes "from_string s = Some d"
  shows "router d \<noteq> [] \<and> CHR '':'' \<notin> set (router d)
     \<and> interface d \<noteq> [] \<and> CHR '' '' \<notin> set (interface d)
     \<and> subnet d \<noteq> [] \<and> CHR '')'' \<notin> set (subnet d)
     \<and> (s = PolicyDestination_str d \<or> s = PolicyDestination_str d @ [CHR 0x0A])"
proof -
  from assms obtain G where G: "re_match pattern s = Some G"
    by (cases "re_match pattern s") (auto simp: from_string_def)
  from re_match_Some[OF G] obtain r i n where
    *: "G = [r, i, n]" "r \<noteq> []" "CHR '':'' \<notin> set r" "i \<noteq> []" "CHR '' '' \<notin> set i"
       "n \<noteq> []" "CHR '')'' \<notin> set n"
       "s = r @ '':'' @ i @ '' ('' @ n @ '')'' \<or> s = r @ '':'' @ i @ '' ('' @ n @ '')'' @ [CHR 0x0A]"
    by blast
  have "d = PolicyDestination r i n" using assms G *(1) by (simp add: from_string_def)
  then show ?thesis using * by (auto simp: PolicyDestination_str_def)
qed

text \<open>
  Claim C4, as amended. For a destination whose router has no colon, whose interface
  has no space and whose subnet has no closing parenthesis, and whose three fields are
  not empty, parsing its rendering returns a destination equal to it.
\<close>

theorem from_string_roundtrip:
  assumes "router d \<noteq> []" "CHR '':'' \<notin> set (router d)"
    "interface d \<noteq> []" "CHR '' '' \<notin> set (interface d)"
    "subnet d \<noteq> []" "CHR '')'' \<notin> set (subnet d)"
  shows "from_string (PolicyDestination_str d) = Some d
     \<and> dest_item_eq (from_string (PolicyDestination_str d)) (Some d)"
proof -
  have "from_string (PolicyDestination_str d) = Some d"
    using re_match_rendered[OF assms] by (simp add: from_string_def PolicyDestination_str_def)
  then show ?thesis by simp
qed

theorem from_string_roundtrip_witness:
  "from_string (PolicyDestination_str (PolicyDestination ''r2'' ''eth0'' ''10.0.0.0/24''))
     = Some (PolicyDestination ''r2'' ''eth0'' ''10.0.0.0/24'')
   \<and> dest_item_eq
       (from_string (PolicyDestination_str (PolicyDestination ''r2'' ''eth0'' ''10.0.0.0/24'')))
       (Some (PolicyDestination ''r2'' ''eth0'' ''10.0.0.0/24''))"
  using from_string_roundtrip[of "PolicyDestination ''r2'' ''eth0'' ''10.0.0.0/24''"]
  by simp

text \<open>
  Claim C4 as it is stated does not hold: each group of the pattern needs one character
  at least, so a destination with an empty router is rendered to a string that
  \<^verbatim>\<open>from_string\<close> does not match.
\<close>

theorem from_string_roundtrip_counterexample:
  "CHR '':'' \<notin> set (router (PolicyDestination [] ''eth0'' ''10.0.0.0/24''))
   \<and> CHR '' '' \<notin> set (interface (PolicyDestination [] ''eth0'' ''10.0.0.0/24''))
   \<and> CHR '')'' \<notin> set (subnet (PolicyDestination [] ''eth0'' ''10.0.0.0/24''))
   \<and> from_string (PolicyDestination_str (PolicyDestination [] ''eth0'' ''10.0.0.0/24'')) = None
   \<and> \<not> dest_item_eq
       (from_string (PolicyDestination_str (PolicyDestination [] ''eth0'' ''10.0.0.0/24'')))
       (Some (PolicyDestination [] ''eth0'' ''10.0.0.0/24''))"
  by (simp add: from_string_def re_match_def pattern_def PolicyDestination_str_def)

lemma dest_grammar_last: "dest_grammar s \<Longrightarrow> last s = CHR '')''"
  by (auto simp: dest_grammar_def)

text \<open>
  What \<^verbatim>\<open>from_string\<close> accepts is a rendering in the grammar, or one followed by a
  newline; every other string is parsed to \<^verbatim>\<open>None\<close>.
\<close>

lemma rendered_in_grammar:
  "CHR '':'' \<notin> set (router d) \<Longrightarrow> CHR '' '' \<notin> set (interface d)
   \<Longrightarrow> dest_grammar (PolicyDestination_str d)"
  unfolding dest_grammar_def PolicyDestination_str_def by blast

lemma from_string_outside_grammar:
  assumes "\<not> dest_grammar s" and "\<forall>t. s = t @ [CHR 0x0A] \<longrightarrow> \<not> dest_grammar t"
  shows "from_string s = None"
proof (cases "from_string s")
  case None
  then show ?thesis .
next
  case (Some d)
  from from_string_Some[OF Some] have
    g: "dest_grammar (PolicyDestination_str d)"
    and s: "s = PolicyDestination_str d \<or> s = PolicyDestination_str d @ [CHR 0x0A]"
    by (simp_all add: rendered_in_grammar)
  from s assms g show ?thesis by auto
qed

text \<open>
  Claim C5 says that a string outside the grammar is parsed to \<^verbatim>\<open>None\<close>. The \<^verbatim>\<open>$\<close> of the
  pattern also matches before a newline that ends the string, so a well-formed
  destination followed by a newline, which the grammar does not contain, is parsed to a
  destination.
\<close>

theorem from_string_trailing_newline:
  "from_string (''r2:eth0 (10.0.0.0/24)'' @ [CHR 0x0A])
     = Some (PolicyDestination ''r2'' ''eth0'' ''10.0.0.0/24'')
   \<and> \<not> dest_grammar (''r2:eth0 (10.0.0.0/24)'' @ [CHR 0x0A])"
proof -
  have "from_string (''r2:eth0 (10.0.0.0/24)'' @ [CHR 0x0A])
     = Some (PolicyDestination ''r2'' ''eth0'' ''10.0.0.0/24'')"
    by code_simp
  moreover have "\<not> dest_grammar (''r2:eth0 (10.0.0.0/24)'' @ [CHR 0x0A])"
    using dest_grammar_last[of "''r2:eth0 (10.0.0.0/24)'' @ [CHR 0x0A]"] by auto
  ultimately show ?thesis by blast
qed

section \<open>Equality, rendering and hash of policies\<close>

lemma source_item_eq_iff: "source_item_eq a b = (a = b)"
  by (cases a; cases b) (auto simp: PolicySource.expand)

lemma dest_item_eq_iff: "dest_item_eq a b = (a = b)"
  by (cases a; cases b) (auto simp: PolicyDestination.expand)



lemma list_eq_sources: "list_eq source_item_eq S S' = (S = S')"
proof -
  have "source_item_eq = (=)" by (intro ext) (simp add: source_item_eq_iff)
  then show ?thesis by (simp add: list_eq_def list_all2_eq)
qed

lemma list_eq_destinations: "list_eq dest_item_eq D D' = (D = D')"
proof -
  have "dest_item_eq = (=)" by (intro ext) (simp add: dest_item_eq_iff)
  then show ?thesis by (simp add: list_eq_def list_all2_eq)
qed

lemma Policy_eq_policy:
  "Policy_eq p (PyPolicy q) =
     Inr (ptype p = ptype q \<and> sources p = sources q \<and> destinations p = destinations q
          \<and> negate p = negate q)"
  by (simp add: Policy_eq_def list_eq_sources list_eq_destinations)

lemma Policy_eq_other:
  "\<forall>q. x \<noteq> PyPolicy q \<Longrightarrow> Policy_eq p x = Inl AttributeError"
  by (cases x) (simp_all add: Policy_eq_def)

lemma Policy_eq_same_base: "Policy_eq p (PyPolicy q) = Inr (same_base p q)"
  by (simp add: Policy_eq_policy same_base_def)







text \<open>
  Between two policies \<^verbatim>\<open>==\<close> is decided by the one method that is called first: no
  \<^verbatim>\<open>__eq__\<close> of a policy returns \<^verbatim>\<open>NotImplemented\<close>.
\<close>

lemma py_eq_policies:
  "py_eq (PyPolicy p) (PyPolicy q) =
     (if proper_subclass (class_of (PyPolicy q)) (class_of (PyPolicy p))
      then map_sum id (\<lambda>r. r = Result True) (dunder_eq (PyPolicy q) (PyPolicy p))
      else map_sum id (\<lambda>r. r = Result True) (dunder_eq (PyPolicy p) (PyPolicy q)))"
proof -
  have never: "dunder_eq (PyPolicy a) x \<noteq> Inr NotImplemented" for a x
    by (cases a) (auto simp: map_sum_def split: sum.splits)
  show ?thesis
    using never[of p "PyPolicy q"] never[of q "PyPolicy p"]
    by (auto simp: py_eq_def Let_def split: sum.splits richcmp.splits)
qed








lemma Policy_str_raises:
  "(\<exists>e. Policy_str p = Inl e) \<longleftrightarrow> (\<exists>S D s. p = LoadBalancingPolicy S D (SpecStr s))"
proof (cases p)
  case (LoadBalancingPolicy S D k)
  then show ?thesis by (cases k) simp_all
qed simp_all

lemma mixed_policy_raises:
  "py_eq (PyPolicy (Policy ''waypoint'' S D False)) (PyPolicy (WaypointPolicy S D w))
     = Inl AttributeError
   \<and> py_eq (PyPolicy (WaypointPolicy S D w)) (PyPolicy (Policy ''waypoint'' S D False))
     = Inl AttributeError
   \<and> py_eq (PyPolicy (Policy ''loadbalancing'' S D False)) (PyPolicy (LoadBalancingPolicy S D k))
     = Inl AttributeError
   \<and> py_eq (PyPolicy (LoadBalancingPolicy S D k)) (PyPolicy (Policy ''loadbalancing'' S D False))
     = Inl AttributeError"
  by (simp add: py_eq_policies proper_subclass_def WaypointPolicy_eq_def
      LoadBalancingPolicy_eq_def Policy_eq_same_base same_base_def)

text \<open>
  Called as a method, \<^verbatim>\<open>Policy.__eq__\<close> does return true for such a pair, whose renderings
  differ; the operator \<^verbatim>\<open>==\<close> never makes this call.
\<close>

lemma Policy_eq_method_mixed:
  "Policy_eq (Policy ''waypoint'' S D False) (PyPolicy (WaypointPolicy S D w)) = Inr True
   \<and> Policy_str (Policy ''waypoint'' S D False) \<noteq> Policy_str (WaypointPolicy S D w)"
  by (simp add: Policy_eq_same_base same_base_def Policy_base_str_def)

section \<open>A policy compared with another kind of object\<close>

text \<open>
  For every policy and every object that is not a policy, \<^verbatim>\<open>==\<close> raises
  \<^verbatim>\<open>AttributeError\<close>: \<^verbatim>\<open>Policy.__eq__\<close> reads \<^verbatim>\<open>other.type\<close> at once.
\<close>


lemma py_eq_policy_other:
  assumes "\<forall>q. x \<noteq> PyPolicy q"
  shows "py_eq (PyPolicy p) x = Inl AttributeError"
proof -
  have sub: "\<not> proper_subclass (class_of x) (class_of (PyPolicy p))"
    using assms by (cases x) (simp_all add: proper_subclass_def)
  have "dunder_eq (PyPolicy p) x = Inl AttributeError"
    by (cases p)
      (simp_all add: Policy_eq_other[OF assms] LoadBalancingPolicy_eq_def WaypointPolicy_eq_def)
  then show ?thesis using sub by (simp add: py_eq_def)
qed

text \<open>
  Claim C3 says that a policy compared with a value of an unrelated type gives false
  and does not raise. \<^verbatim>\<open>Policy.__eq__\<close> has no test of the type of \<open>other\<close>, as
  \<^verbatim>\<open>PolicySource.__eq__\<close> and \<^verbatim>\<open>PolicyDestination.__eq__\<close> have: compared with the integer
  5 or with a string, a policy raises \<^verbatim>\<open>AttributeError\<close>, where a source and a
  destination give false.
\<close>

theorem Policy_eq_unrelated_raises:
  "py_eq (PyPolicy (ReachabilityPolicy [SourceObj (PolicySource ''r1'')]
            [Some (PolicyDestination ''r2'' ''eth0'' ''10.0.0.0/24'')] False)) (PyInt 5)
     = Inl AttributeError
   \<and> py_eq (PyPolicy (ReachabilityPolicy [SourceObj (PolicySource ''r1'')]
            [Some (PolicyDestination ''r2'' ''eth0'' ''10.0.0.0/24'')] False)) (PyStr ''r1'')
     = Inl AttributeError
   \<and> py_eq (PySource (PolicySource ''r1'')) (PyInt 5) = Inr False
   \<and> py_eq (PyDestination (PolicyDestination ''r2'' ''eth0'' ''10.0.0.0/24'')) (PyInt 5)
     = Inr False"
  by (simp add: py_eq_def proper_subclass_def Policy_eq_def)

section \<open>Reading a record\<close>

lemma py_eq_kind:
  assumes "t = PyEnum k \<or> t = PyStr (''PolicyType.'' @ pt_name k)"
  shows "py_eq t (PyEnum m) = Inr (k = m)"
proof -
  have str: "py_eq (PyStr (''PolicyType.'' @ pt_name k)) (PyEnum m) = Inr (k = m)"
    unfolding py_eq_str_enum PolicyType_eq_prefixed by (simp add: pt_name_inj)
  from assms show ?thesis
  proof
    assume "t = PyEnum k"
    then show ?thesis by (simp add: py_eq_enum_enum)
  next
    assume "t = PyStr (''PolicyType.'' @ pt_name k)"
    then show ?thesis using str by simp
  qed
qed

text \<open>
  For a record whose kind the factory supports, given as the member or as its string
  form, and whose \<^verbatim>\<open>specifics\<close> are read without an exception, \<^verbatim>\<open>from_df\<close> returns a
  policy. Its \<^verbatim>\<open>destinations\<close> are the results of \<^verbatim>\<open>from_string\<close> on the elements of
  the \<^verbatim>\<open>Destinations\<close> string, place by place, a \<^verbatim>\<open>None\<close> included.
\<close>

lemma from_df_supported:
  assumes kind: "df_type df = PyEnum k \<or> df_type df = PyStr (''PolicyType.'' @ pt_name k)"
    and k: "k \<in> {Reachability, Isolation, Waypoint, LoadBalancingSimple}"
    and spec: "read_specifics (df_specifics df) = Inr spec"
  shows "\<exists>p. from_df df = Inr (Some p)
           \<and> sources p = [SourceStr (df_source df)]
           \<and> destinations p
               = map from_string (str_split (slice_1_m1 (df_Destinations df)) '', '')"
proof -
  note eq = py_eq_kind[OF kind]
  from k consider "k = Reachability" | "k = Isolation" | "k = Waypoint"
    | "k = LoadBalancingSimple" by auto
  then show ?thesis
  proof cases
    case 1
    then show ?thesis using spec by (simp add: from_df_def get_policy_def eq)
  next
    case 2
    then show ?thesis using spec by (simp add: from_df_def get_policy_def eq)
  next
    case 3
    then show ?thesis using spec by (simp add: from_df_def get_policy_def eq)
  next
    case 4
    then show ?thesis using spec by (simp add: from_df_def get_policy_def eq)
  qed
qed

lemma read_specifics_decimal:
  "s \<noteq> [] \<Longrightarrow> list_all is_decimal_char s \<Longrightarrow> length s \<le> max_str_digits
   \<Longrightarrow> \<exists>n. read_specifics s = Inr (SpecInt n)"
  by (induction s) (auto simp: read_specifics_def isdigit_def py_int_def is_digit_char_def
      list_all_iff)

lemma read_specifics_not_digit: "\<not> isdigit s \<Longrightarrow> read_specifics s = Inr (SpecStr s)"
  by (simp add: read_specifics_def)

lemma read_specifics_superscript: "read_specifics [CHR 0xB2] = Inl ValueError"
  by (simp add: read_specifics_def isdigit_def py_int_def is_digit_char_def is_decimal_char_def
      max_str_digits_def)

text \<open>
  So a record whose \<^verbatim>\<open>specifics\<close> is a superscript digit is not read at all: \<^verbatim>\<open>isdigit\<close>
  holds of it and \<^verbatim>\<open>int\<close> raises.
\<close>

lemma from_df_superscript_raises:
  "from_df \<lparr>df_type = PyStr ''PolicyType.Reachability'', df_source = ''r1'',
            df_Destinations = ''{garbage}'', df_specifics = [CHR 0xB2]\<rparr> = Inl ValueError"
  by code_simp

text \<open>
  Claim C2, as amended. The record with \<^verbatim>\<open>type="PolicyType.Reachability"\<close> (or the member
  itself), \<^verbatim>\<open>source="r1"\<close>, \<^verbatim>\<open>Destinations="{r2:eth0 (10.0.0.0/24)}"\<close> and
  \<^verbatim>\<open>specifics="0"\<close> is read to a \<^verbatim>\<open>ReachabilityPolicy\<close> with the one source \<^verbatim>\<open>r1\<close> and
  the one destination of router \<^verbatim>\<open>r2\<close>, interface \<^verbatim>\<open>eth0\<close> and subnet
  \<^verbatim>\<open>10.0.0.0/24\<close>.
\<close>

theorem from_df_example:
  "from_df \<lparr>df_type = PyStr ''PolicyType.Reachability'', df_source = ''r1'',
            df_Destinations = ''{r2:eth0 (10.0.0.0/24)}'', df_specifics = ''0''\<rparr>
     = Inr (Some (ReachabilityPolicy [SourceStr ''r1'']
              [Some (PolicyDestination ''r2'' ''eth0'' ''10.0.0.0/24'')] False))
   \<and> from_df \<lparr>df_type = PyEnum Reachability, df_source = ''r1'',
            df_Destinations = ''{r2:eth0 (10.0.0.0/24)}'', df_specifics = ''0''\<rparr>
     = Inr (Some (ReachabilityPolicy [SourceStr ''r1'']
              [Some (PolicyDestination ''r2'' ''eth0'' ''10.0.0.0/24'')] False))"
  by code_simp

text \<open>
  Claim C2 as it is stated does not hold: the string \<^verbatim>\<open>"Reachability"\<close> has no dot, so
  \<^verbatim>\<open>PolicyType.__eq__\<close> does not take it for a member, no branch of the factory is
  taken, and \<^verbatim>\<open>from_df\<close> returns \<^verbatim>\<open>None\<close>.
\<close>

theorem from_df_example_counterexample:
  "from_df \<lparr>df_type = PyStr ''Reachability'', df_source = ''r1'',
            df_Destinations = ''{r2:eth0 (10.0.0.0/24)}'', df_specifics = ''0''\<rparr> = Inr None"
  by code_simp

text \<open>
  Claim C10 says that the policy \<^verbatim>\<open>from_df\<close> returns has \<^verbatim>\<open>None\<close> at the place of each
  element of \<^verbatim>\<open>Destinations\<close> that is outside the destination grammar. An element that
  ends with a newline is outside the grammar, and \<^verbatim>\<open>from_string\<close> parses it to a
  destination (the \<^verbatim>\<open>$\<close> of its pattern), which is what the policy holds at that place.
\<close>

theorem from_df_trailing_newline:
  "str_split (slice_1_m1 (''{r2:eth0 (10.0.0.0/24)'' @ [CHR 0x0A] @ ''}'')) '', ''
     = [''r2:eth0 (10.0.0.0/24)'' @ [CHR 0x0A]]
   \<and> \<not> dest_grammar (''r2:eth0 (10.0.0.0/24)'' @ [CHR 0x0A])
   \<and> from_df \<lparr>df_type = PyStr ''PolicyType.Reachability'', df_source = ''r1'',
         df_Destinations = ''{r2:eth0 (10.0.0.0/24)'' @ [CHR 0x0A] @ ''}'',
         df_specifics = ''0''\<rparr>
     = Inr (Some (ReachabilityPolicy [SourceStr ''r1'']
              [Some (PolicyDestination ''r2'' ''eth0'' ''10.0.0.0/24'')] False))"
proof -
  have "str_split (slice_1_m1 (''{r2:eth0 (10.0.0.0/24)'' @ [CHR 0x0A] @ ''}'')) '', ''
     = [''r2:eth0 (10.0.0.0/24)'' @ [CHR 0x0A]]"
    by code_simp
  moreover have "\<not> dest_grammar (''r2:eth0 (10.0.0.0/24)'' @ [CHR 0x0A])"
    using dest_grammar_last[of "''r2:eth0 (10.0.0.0/24)'' @ [CHR 0x0A]"] by auto
  moreover have "from_df \<lparr>df_type = PyStr ''PolicyType.Reachability'', df_source = ''r1'',
         df_Destinations = ''{r2:eth0 (10.0.0.0/24)'' @ [CHR 0x0A] @ ''}'',
         df_specifics = ''0''\<rparr>
     = Inr (Some (ReachabilityPolicy [SourceStr ''r1'']
              [Some (PolicyDestination ''r2'' ''eth0'' ''10.0.0.0/24'')] False))"
    by code_simp
  ultimately show ?thesis by blast
qed

end
